theory Spec2Isabelle
  imports Complex_Main
begin

section \<open>Python values\<close>

text \<open>
  A Python \<open>str\<close> is a sequence of code points. The model covers the code points below
  256, one \<^typ>\<open>char\<close> each, and follows CPython on that range: \<open>str.lower\<close>,
  \<open>str.isspace\<close> (the separators of \<open>str.split()\<close>, also the class \<open>\s\<close> of \<open>re\<close>)
  and the word characters of \<open>re\<close> (the class \<open>\w\<close>, which decides \<open>\b\<close>).
\<close>

definition code_point :: "char \<Rightarrow> nat" where
  "code_point c = of_char c"

definition lower_char :: "char \<Rightarrow> char" where
  "lower_char c =
     (let n = code_point c
      in if (65 \<le> n \<and> n \<le> 90) \<or> (192 \<le> n \<and> n \<le> 222 \<and> n \<noteq> 215)
         then char_of (n + 32) else c)"

definition str_lower :: "string \<Rightarrow> string" where
  "str_lower s = map lower_char s"

definition is_space :: "char \<Rightarrow> bool" where
  "is_space c =
     (let n = code_point c
      in (9 \<le> n \<and> n \<le> 13) \<or> (28 \<le> n \<and> n \<le> 32) \<or> n = 133 \<or> n = 160)"

definition is_word :: "char \<Rightarrow> bool" where
  "is_word c =
     (let n = code_point c
      in (48 \<le> n \<and> n \<le> 57) \<or> (65 \<le> n \<and> n \<le> 90) \<or> n = 95 \<or> (97 \<le> n \<and> n \<le> 122)
         \<or> n = 170 \<or> n = 178 \<or> n = 179 \<or> n = 181 \<or> n = 185 \<or> n = 186
         \<or> (188 \<le> n \<and> n \<le> 190) \<or> (192 \<le> n \<and> n \<le> 214) \<or> (216 \<le> n \<and> n \<le> 246)
         \<or> 248 \<le> n)"

text \<open>
  The values that \<open>json.load\<close> builds, which is what a profile and a job analysis are
  made of. A \<open>dict\<close> is an association list in insertion order (its keys distinct in
  Python); a JSON float carries its value.
\<close>

datatype json =
    JNull
  | JBool bool
  | JInt int
  | JFloat rat
  | JStr string
  | JArr "json list"
  | JObj "(string \<times> json) list"

text \<open>The exceptions the modelled code can raise, by class.\<close>

datatype error =
  OSError | ValueError | AttributeError | TypeError | ZeroDivisionError | UnicodeEncodeError

text \<open>Sequencing: the first exception ends the computation.\<close>

definition and_then :: "error + 'a \<Rightarrow> ('a \<Rightarrow> error + 'b) \<Rightarrow> error + 'b" where
  "and_then r f = (case r of Inl e \<Rightarrow> Inl e | Inr v \<Rightarrow> f v)"

text \<open>
  \<open>print\<close> of one of the log lines of the engine. Each of them starts with an emoji, and
  \<open>print\<close> raises \<open>UnicodeEncodeError\<close> when the encoding of \<open>stdout\<close> has no code for
  it; \<open>stdout_ok\<close> tells whether \<open>stdout\<close> can encode the line.
\<close>

definition print_line :: "bool \<Rightarrow> error + unit" where
  "print_line stdout_ok = (if stdout_ok then Inr () else Inl UnicodeEncodeError)"

text \<open>\<open>d.get(k, default)\<close>: only a \<open>dict\<close> has the method.\<close>

definition py_get :: "json \<Rightarrow> string \<Rightarrow> json \<Rightarrow> error + json" where
  "py_get d k dflt =
     (case d of
        JObj kvs \<Rightarrow> Inr (case map_of kvs k of Some v \<Rightarrow> v | None \<Rightarrow> dflt)
      | _ \<Rightarrow> Inl AttributeError)"

text \<open>
  What \<open>for x in v\<close> runs over: the items of a list, the one-character strings of a
  string, the keys of a dict; any other value is not iterable.
\<close>

definition py_iter :: "json \<Rightarrow> error + json list" where
  "py_iter v =
     (case v of
        JArr xs \<Rightarrow> Inr xs
      | JStr s \<Rightarrow> Inr (map (\<lambda>c. JStr [c]) s)
      | JObj kvs \<Rightarrow> Inr (map (\<lambda>kv. JStr (fst kv)) kvs)
      | _ \<Rightarrow> Inl TypeError)"

text \<open>\<open>v.lower()\<close>: only a \<open>str\<close> has the method.\<close>

definition py_lower :: "json \<Rightarrow> error + string" where
  "py_lower v = (case v of JStr s \<Rightarrow> Inr (str_lower s) | _ \<Rightarrow> Inl AttributeError)"

text \<open>\<open>xs[:k]\<close>: a negative \<open>k\<close> counts from the end, and is clamped at the start.\<close>

definition py_slice_to :: "'a list \<Rightarrow> int \<Rightarrow> 'a list" where
  "py_slice_to xs k =
     (if 0 \<le> k then take (nat k) xs else take (nat (int (length xs) + k)) xs)"

section \<open>The retrieval engine (utils/rag\_engine.py)\<close>

text \<open>A snippet is the dict \<open>{"content": ..., "metadata": {...}}\<close>.\<close>

record snippet =
  content :: json
  metadata :: "(string \<times> json) list"

subsection \<open>Matching a keyword in a snippet\<close>

text \<open>\<open>kw in s\<close> on strings: \<open>kw\<close> occurs in \<open>s\<close> as a contiguous run.\<close>

fun starts_with :: "string \<Rightarrow> string \<Rightarrow> bool" where
  "starts_with [] s = True"
| "starts_with (k # ks) [] = False"
| "starts_with (k # ks) (c # cs) = (k = c \<and> starts_with ks cs)"

fun str_contains :: "string \<Rightarrow> string \<Rightarrow> bool" where
  "str_contains kw [] = (kw = [])"
| "str_contains kw (c # cs) = (starts_with kw (c # cs) \<or> str_contains kw cs)"

text \<open>
  \<open>\b\<close> at position \<open>p\<close> of \<open>s\<close>: exactly one of the characters before and at \<open>p\<close> is a
  word character, where the positions outside the string count as non-word.
\<close>

definition word_at :: "string \<Rightarrow> nat \<Rightarrow> bool" where
  "word_at s p = (p < length s \<and> is_word (s ! p))"

definition at_boundary :: "string \<Rightarrow> nat \<Rightarrow> bool" where
  "at_boundary s p = ((0 < p \<and> word_at s (p - 1)) \<noteq> word_at s p)"

text \<open>
  \<open>re.search(rf'\b{re.escape(kw)}\b', s)\<close> finds a match: at some position of \<open>s\<close> there
  is a word boundary, then \<open>kw\<close> literally, then a word boundary.
\<close>

definition word_search :: "string \<Rightarrow> string \<Rightarrow> bool" where
  "word_search kw s =
     list_ex (\<lambda>i. at_boundary s i \<and> starts_with kw (drop i s) \<and> at_boundary s (i + length kw))
       [0..<Suc (length s)]"

subsection \<open>retrieve\_relevant\_experience\<close>

text \<open>The loop over \<open>job_keywords\<close>, the running \<open>score\<close> as accumulator.\<close>

fun score_keywords :: "string \<Rightarrow> json list \<Rightarrow> int \<Rightarrow> error + int" where
  "score_keywords content_lower [] score = Inr score"
| "score_keywords content_lower (kw # kws) score =
     (case py_lower kw of
        Inl e \<Rightarrow> Inl e
      | Inr k \<Rightarrow>
          if word_search k content_lower then score_keywords content_lower kws (score + 2)
          else if str_contains k content_lower then score_keywords content_lower kws (score + 1)
          else score_keywords content_lower kws score)"

text \<open>
  What one round of that loop adds to the score, and the score that the loop gives to a
  content for keywords that are strings: the code's two tests, in closed form.
\<close>

definition loop_points :: "string \<Rightarrow> string \<Rightarrow> int" where
  "loop_points content_lower k =
     (if word_search k content_lower then 2 else if str_contains k content_lower then 1 else 0)"

definition loop_score :: "string list \<Rightarrow> string \<Rightarrow> int" where
  "loop_score ks c = sum_list (map (\<lambda>kw. loop_points (str_lower c) (str_lower kw)) ks)"

text \<open>The loop over \<open>self.snippets\<close>, the list \<open>scored_snippets\<close> as accumulator.\<close>

fun score_snippets ::
  "snippet list \<Rightarrow> json list \<Rightarrow> (int \<times> snippet) list \<Rightarrow> error + (int \<times> snippet) list" where
  "score_snippets [] job_keywords scored = Inr scored"
| "score_snippets (s # ss) job_keywords scored =
     (case py_lower (content s) of
        Inl e \<Rightarrow> Inl e
      | Inr content_lower \<Rightarrow>
          (case score_keywords content_lower job_keywords 0 of
             Inl e \<Rightarrow> Inl e
           | Inr score \<Rightarrow>
               score_snippets ss job_keywords
                 (if 0 < score then scored @ [(score, s)] else scored)))"

text \<open>
  \<open>scored_snippets.sort(key=lambda x: x[0], reverse=True)\<close>: Python's sort is stable,
  also when reversed, so the result is the stable sort by descending score; it is
  computed here by insertion.
\<close>

definition sort_by_score_desc :: "(int \<times> snippet) list \<Rightarrow> (int \<times> snippet) list" where
  "sort_by_score_desc scored = sort_key (\<lambda>x. - fst x) scored"

text \<open>
  The method up to its list \<open>results\<close>: scoring, sorting and the slice \<open>[:top_k]\<close>.
\<close>

definition retrieve_relevant_experience ::
  "snippet list \<Rightarrow> json list \<Rightarrow> int \<Rightarrow> error + snippet list" where
  "retrieve_relevant_experience snippets job_keywords top_k =
     (case score_snippets snippets job_keywords [] of
        Inl e \<Rightarrow> Inl e
      | Inr scored \<Rightarrow> Inr (map snd (py_slice_to (sort_by_score_desc scored) top_k)))"

text \<open>
  The whole method: before it returns \<open>results\<close> it prints how many there are, and the
  exception of a failed \<open>print\<close> leaves the method instead of the list.
\<close>

definition retrieve_and_print ::
  "bool \<Rightarrow> snippet list \<Rightarrow> json list \<Rightarrow> int \<Rightarrow> error + snippet list" where
  "retrieve_and_print stdout_ok snippets job_keywords top_k =
     and_then (retrieve_relevant_experience snippets job_keywords top_k) (\<lambda>results.
     and_then (print_line stdout_ok) (\<lambda>_. Inr results))"

section \<open>The snippet store (RAGEngine.\_\_init\_\_, \_initialize\_snippets)\<close>

text \<open>
  What an f-string prints for a value: a \<open>str\<close> as it is, \<open>None\<close> as \<open>None\<close>, the booleans
  as \<open>True\<close> and \<open>False\<close>; for numbers, lists and dicts it is the runtime's \<open>str()\<close>,
  taken as the parameter \<open>str_of\<close>.
\<close>

definition py_format :: "(json \<Rightarrow> string) \<Rightarrow> json \<Rightarrow> string" where
  "py_format str_of v =
     (case v of
        JStr s \<Rightarrow> s
      | JNull \<Rightarrow> ''None''
      | JBool b \<Rightarrow> (if b then ''True'' else ''False'')
      | _ \<Rightarrow> str_of v)"

text \<open>
  The items of one role that become snippets:
  \<open>role.get('achievements', role.get('responsibilities', []))\<close>, iterated.
\<close>

definition role_items :: "json \<Rightarrow> error + json list" where
  "role_items role =
     and_then (py_get role ''responsibilities'' (JArr [])) (\<lambda>resp.
     and_then (py_get role ''achievements'' resp) py_iter)"

text \<open>
  The body of the loop over the roles, for one role. Every exception of the body is
  raised before its first \<open>append\<close>: once \<open>role.get\<close> has worked and the items are
  iterable, nothing in the inner loop can fail.
\<close>

definition role_snippets :: "json \<Rightarrow> error + snippet list" where
  "role_snippets role =
     and_then (py_get role ''company'' (JStr ''Unknown'')) (\<lambda>company.
     and_then (py_get role ''title'' (JStr ''Position'')) (\<lambda>title.
     and_then (role_items role) (\<lambda>items.
     and_then (py_get role ''dates'' (JStr [])) (\<lambda>dates.
       Inr (map (\<lambda>ach.
              \<lparr>content = ach,
               metadata = [(''type'', JStr ''experience''), (''company'', company),
                           (''title'', title), (''dates'', dates)]\<rparr>) items)))))"

definition project_snippet :: "(json \<Rightarrow> string) \<Rightarrow> json \<Rightarrow> error + snippet" where
  "project_snippet str_of project =
     and_then (py_get project ''name'' JNull) (\<lambda>name.
     and_then (py_get project ''description'' JNull) (\<lambda>description.
       Inr \<lparr>content = JStr (''Project '' @ py_format str_of name @ '': ''
                             @ py_format str_of description),
            metadata = [(''type'', JStr ''project''), (''name'', name)]\<rparr>))"

text \<open>
  The two loops append to \<open>self.snippets\<close>. An exception leaves the loop with what was
  appended so far: the result is the list and the exception, if any.
\<close>

fun experience_loop :: "json list \<Rightarrow> snippet list \<Rightarrow> snippet list \<times> error option" where
  "experience_loop [] snippets = (snippets, None)"
| "experience_loop (role # roles) snippets =
     (case role_snippets role of
        Inl e \<Rightarrow> (snippets, Some e)
      | Inr new \<Rightarrow> experience_loop roles (snippets @ new))"

fun project_loop ::
  "(json \<Rightarrow> string) \<Rightarrow> json list \<Rightarrow> snippet list \<Rightarrow> snippet list \<times> error option" where
  "project_loop str_of [] snippets = (snippets, None)"
| "project_loop str_of (project # projects) snippets =
     (case project_snippet str_of project of
        Inl e \<Rightarrow> (snippets, Some e)
      | Inr new \<Rightarrow> project_loop str_of projects (snippets @ [new]))"

text \<open>
  The \<open>try\<close> block up to its last statement. \<open>loaded\<close> is what \<open>open\<close> and \<open>json.load\<close>
  gave: the profile, or the exception of an unreadable file (\<open>OSError\<close>) or of a text
  that is not JSON (\<open>ValueError\<close>).
\<close>

definition try_initialize ::
  "(json \<Rightarrow> string) \<Rightarrow> error + json \<Rightarrow> snippet list \<Rightarrow> snippet list \<times> error option" where
  "try_initialize str_of loaded snippets0 =
     (case loaded of
        Inl e \<Rightarrow> (snippets0, Some e)
      | Inr profile \<Rightarrow>
          (case and_then (py_get profile ''experience'' (JArr [])) py_iter of
             Inl e \<Rightarrow> (snippets0, Some e)
           | Inr roles \<Rightarrow>
               (case experience_loop roles snippets0 of
                  (snippets1, Some e) \<Rightarrow> (snippets1, Some e)
                | (snippets1, None) \<Rightarrow>
                    (case and_then (py_get profile ''projects'' (JArr [])) py_iter of
                       Inl e \<Rightarrow> (snippets1, Some e)
                     | Inr projects \<Rightarrow> project_loop str_of projects snippets1))))"

text \<open>
  The engine after construction: its snippets and the line it printed, which is the
  count of snippets, or the caught exception.
\<close>

datatype log_line = Initialized nat | InitializationFailed error

record rag_engine =
  snippets :: "snippet list"
  printed :: log_line

text \<open>
  \<open>_initialize_snippets\<close>. The last statement of the \<open>try\<close> block prints the count, and
  an exception of that \<open>print\<close> is caught like any other of the block. The handler
  prints the caught exception; nothing protects this second \<open>print\<close>, so its exception
  leaves the method, and the constructor with it.
\<close>

definition initialize_snippets ::
  "(json \<Rightarrow> string) \<Rightarrow> bool \<Rightarrow> error + json \<Rightarrow> snippet list \<Rightarrow> error + rag_engine" where
  "initialize_snippets str_of stdout_ok loaded snippets0 =
     (case try_initialize str_of loaded snippets0 of
        (ss, caught0) \<Rightarrow>
          (case (case caught0 of
                   Some e \<Rightarrow> Some e
                 | None \<Rightarrow> (case print_line stdout_ok of Inl e \<Rightarrow> Some e | Inr _ \<Rightarrow> None)) of
             None \<Rightarrow> Inr \<lparr>snippets = ss, printed = Initialized (length ss)\<rparr>
           | Some e \<Rightarrow>
               and_then (print_line stdout_ok)
                 (\<lambda>_. Inr \<lparr>snippets = ss, printed = InitializationFailed e\<rparr>)))"

text \<open>\<open>__init__\<close> sets \<open>self.snippets = []\<close> and initializes.\<close>

definition rag_engine_init ::
  "(json \<Rightarrow> string) \<Rightarrow> bool \<Rightarrow> error + json \<Rightarrow> error + rag_engine" where
  "rag_engine_init str_of stdout_ok loaded = initialize_snippets str_of stdout_ok loaded []"

section \<open>The match calculator (utils/match\_calculator.py)\<close>

subsection \<open>Strings, sets and numbers of the runtime\<close>

text \<open>\<open>s.split()\<close>: the maximal runs of characters that are not whitespace.\<close>

fun split_ws :: "string \<Rightarrow> string \<Rightarrow> string list" where
  "split_ws cur [] = (if cur = [] then [] else [cur])"
| "split_ws cur (c # cs) =
     (if is_space c then (if cur = [] then split_ws [] cs else cur # split_ws [] cs)
      else split_ws (cur @ [c]) cs)"

definition py_split :: "string \<Rightarrow> string list" where
  "py_split s = split_ws [] s"

text \<open>\<open>sep.join(xs)\<close> on strings.\<close>

fun py_join :: "string \<Rightarrow> string list \<Rightarrow> string" where
  "py_join sep [] = []"
| "py_join sep [x] = x"
| "py_join sep (x # y # ys) = x @ sep @ py_join sep (y # ys)"

text \<open>
  A Python \<open>set\<close> of strings is a list without repetition, in the order in which the set
  is iterated. Python leaves that order open; the model iterates in the order of
  insertion. Only the lists of missing skills and the recommendation texts that quote
  them depend on the order.
\<close>

definition set_add :: "string \<Rightarrow> string list \<Rightarrow> string list" where
  "set_add x s = (if x \<in> set s then s else s @ [x])"

definition set_update :: "string list \<Rightarrow> string list \<Rightarrow> string list" where
  "set_update s xs = fold set_add xs s"

text \<open>\<open>a - b\<close> on sets.\<close>

definition set_difference :: "string list \<Rightarrow> string list \<Rightarrow> string list" where
  "set_difference a b = filter (\<lambda>x. x \<notin> set b) a"

text \<open>
  The numbers of the calculation are Python \<open>int\<close>s and \<open>float\<close>s. A float is the number
  it stands for; every float operation rounds the exact result with the rounding \<open>fl\<close>
  of the machine arithmetic (to the nearest double), which is a parameter of the model.
\<close>

datatype pynum = PInt int | PFloat rat

fun num_val :: "pynum \<Rightarrow> rat" where
  "num_val (PInt n) = of_int n"
| "num_val (PFloat x) = x"

text \<open>\<open>a / b\<close> on \<open>int\<close>s.\<close>

definition py_truediv :: "(rat \<Rightarrow> rat) \<Rightarrow> int \<Rightarrow> int \<Rightarrow> error + pynum" where
  "py_truediv fl a b =
     (if b = 0 then Inl ZeroDivisionError else Inr (PFloat (fl (of_int a / of_int b))))"

fun py_mul :: "(rat \<Rightarrow> rat) \<Rightarrow> pynum \<Rightarrow> pynum \<Rightarrow> pynum" where
  "py_mul fl (PInt a) (PInt b) = PInt (a * b)"
| "py_mul fl x y = PFloat (fl (num_val x * num_val y))"

fun py_add :: "(rat \<Rightarrow> rat) \<Rightarrow> pynum \<Rightarrow> pynum \<Rightarrow> pynum" where
  "py_add fl (PInt a) (PInt b) = PInt (a + b)"
| "py_add fl x y = PFloat (fl (num_val x + num_val y))"

text \<open>\<open>min(a, b)\<close>: the second argument only when it is smaller.\<close>

definition py_min :: "pynum \<Rightarrow> pynum \<Rightarrow> pynum" where
  "py_min a b = (if num_val b < num_val a then b else a)"

text \<open>
  \<open>round(x, 1)\<close>: an \<open>int\<close> is returned as it is; a float is rounded to one decimal,
  ties to the even digit, and the decimal is read back as a float.
\<close>

definition round_half_even :: "rat \<Rightarrow> int" where
  "round_half_even x =
     (let f = \<lfloor>x\<rfloor>; d = x - of_int f
      in if d < 1 / 2 then f else if 1 / 2 < d then f + 1 else if even f then f else f + 1)"

fun py_round1 :: "(rat \<Rightarrow> rat) \<Rightarrow> pynum \<Rightarrow> pynum" where
  "py_round1 fl (PInt n) = PInt n"
| "py_round1 fl (PFloat x) = PFloat (fl (of_int (round_half_even (x * 10)) / 10))"

subsection \<open>\_extract\_candidate\_skills\<close>

text \<open>
  \<open>re.findall(r'\b[A-Z][a-z]+(?:\s+[A-Z][a-z]+)*\b', resp)\<close>. A capitalised word is an
  ASCII capital and the longest run of ASCII small letters after it, which must not be
  empty. A shorter run could never be part of a match: the character after it would be
  a small letter, where neither whitespace nor a word boundary is found.
\<close>

definition is_upper_az :: "char \<Rightarrow> bool" where
  "is_upper_az c = (65 \<le> code_point c \<and> code_point c \<le> 90)"

definition is_lower_az :: "char \<Rightarrow> bool" where
  "is_lower_az c = (97 \<le> code_point c \<and> code_point c \<le> 122)"

definition cap_word :: "string \<Rightarrow> (string \<times> string) option" where
  "cap_word s =
     (case s of
        [] \<Rightarrow> None
      | u # t \<Rightarrow>
          if is_upper_az u \<and> takeWhile is_lower_az t \<noteq> []
          then Some (u # takeWhile is_lower_az t, dropWhile is_lower_az t)
          else None)"

text \<open>One round of the group \<open>(?:\s+[A-Z][a-z]+)\<close>: all the whitespace, then a word.\<close>

definition cap_group :: "string \<Rightarrow> (string \<times> string) option" where
  "cap_group s =
     (if takeWhile is_space s = [] then None
      else (case cap_word (dropWhile is_space s) of
              None \<Rightarrow> None
            | Some (w, r) \<Rightarrow> Some (takeWhile is_space s @ w, r)))"

lemma cap_word_shorter:
  assumes "cap_word s = Some (w, r)"
  shows "length r < length s"
proof (cases s)
  case Nil
  with assms show ?thesis by (simp add: cap_word_def)
next
  case (Cons u t)
  with assms have "r = dropWhile is_lower_az t"
    by (simp add: cap_word_def split: if_splits)
  then have "length r \<le> length t"
    by (simp add: length_dropWhile_le)
  with Cons show ?thesis by simp
qed

lemma cap_group_shorter: "cap_group s = Some (g, r) \<Longrightarrow> length r < length s"
proof -
  assume a: "cap_group s = Some (g, r)"
  then obtain w where "cap_word (dropWhile is_space s) = Some (w, r)"
    by (simp add: cap_group_def split: if_splits option.splits prod.splits)
  then have "length r < length (dropWhile is_space s)"
    by (rule cap_word_shorter)
  also have "\<dots> \<le> length s"
    by (rule length_dropWhile_le)
  finally show ?thesis .
qed

text \<open>
  The final \<open>\b\<close> after the text \<open>m\<close> matched so far, which ends in a small letter: the
  input ends here, or goes on with a character that is not a word character.
\<close>

definition end_ok :: "string \<Rightarrow> string \<Rightarrow> (string \<times> string) option" where
  "end_ok m r = (case r of [] \<Rightarrow> Some (m, r) | c # _ \<Rightarrow> if is_word c then None else Some (m, r))"

text \<open>
  The greedy star: one more round of the group first, and when no match comes of that,
  the final \<open>\b\<close> here. The result is the matched text and the rest of the input.
\<close>

function match_groups :: "string \<Rightarrow> string \<Rightarrow> (string \<times> string) option" where
  "match_groups m r =
     (case cap_group r of
        None \<Rightarrow> end_ok m r
      | Some (g, r') \<Rightarrow>
          (case match_groups (m @ g) r' of
             Some res \<Rightarrow> Some res
           | None \<Rightarrow> end_ok m r))"
  by pat_completeness auto
termination
  by (relation "measure (\<lambda>(m, r). length r)") (auto dest: cap_group_shorter)

definition cap_phrase :: "string \<Rightarrow> (string \<times> string) option" where
  "cap_phrase s = (case cap_word s of None \<Rightarrow> None | Some (w, r) \<Rightarrow> match_groups w r)"

lemma match_groups_shorter: "match_groups m r = Some (m', r') \<Longrightarrow> length r' \<le> length r"
proof (induction m r arbitrary: m' r' rule: match_groups.induct)
  case (1 m r)
  show ?case
  proof (cases "cap_group r")
    case None
    with "1.prems" show ?thesis
      by (auto simp: end_ok_def split: list.splits if_splits)
  next
    case (Some gr)
    obtain g r1 where gr: "gr = (g, r1)" by (cases gr)
    have short: "length r1 < length r"
      using Some gr cap_group_shorter by blast
    show ?thesis
    proof (cases "match_groups (m @ g) r1")
      case None
      with "1.prems" \<open>cap_group r = Some gr\<close> gr show ?thesis
        by (auto simp: end_ok_def split: list.splits if_splits)
    next
      case (Some res)
      with "1.prems" \<open>cap_group r = Some gr\<close> gr have "match_groups (m @ g) r1 = Some (m', r')"
        by simp
      from "1.IH" [OF \<open>cap_group r = Some gr\<close> gr [symmetric] this] short show ?thesis
        by simp
    qed
  qed
qed

lemma cap_phrase_shorter:
  assumes "cap_phrase s = Some (m, r)"
  shows "length r < length s"
proof -
  from assms obtain w r0 where w: "cap_word s = Some (w, r0)" and g: "match_groups w r0 = Some (m, r)"
    by (auto simp: cap_phrase_def split: option.splits)
  from w have "length r0 < length s"
    by (rule cap_word_shorter)
  moreover from g have "length r \<le> length r0"
    by (rule match_groups_shorter)
  ultimately show ?thesis by simp
qed

text \<open>
  The scan of \<open>findall\<close>, left to right: \<open>prev_word\<close> tells whether the character before
  the position is a word character. A match starts with the leading \<open>\b\<close>, so after a
  character that is not a word character; the scan goes on behind a match.
\<close>

function findall_caps :: "bool \<Rightarrow> string \<Rightarrow> string list" where
  "findall_caps prev_word [] = []"
| "findall_caps prev_word (c # cs) =
     (if prev_word then findall_caps (is_word c) cs
      else (case cap_phrase (c # cs) of
              Some (m, r) \<Rightarrow> m # findall_caps True r
            | None \<Rightarrow> findall_caps (is_word c) cs))"
  by pat_completeness auto
termination
proof (relation "measure (\<lambda>(p, s). length s)")
  fix prev_word :: bool and c :: char and cs x2 m r
  assume "cap_phrase (c # cs) = Some x2" and "(m, r) = x2"
  then have "length r < length (c # cs)"
    using cap_phrase_shorter by blast
  then show "((True, r), (prev_word, c # cs)) \<in> measure (\<lambda>(p, s). length s)"
    by simp
qed simp_all

text \<open>\<open>x.lower() for x in items\<close>: stops at the first item that is no string.\<close>

fun lower_all :: "json list \<Rightarrow> error + string list" where
  "lower_all [] = Inr []"
| "lower_all (v # vs) =
     and_then (py_lower v) (\<lambda>s. and_then (lower_all vs) (\<lambda>ss. Inr (s # ss)))"

text \<open>The loop over \<open>skills_data.items()\<close>: only the values that are lists count.\<close>

fun skills_from_categories :: "(string \<times> json) list \<Rightarrow> string list \<Rightarrow> error + string list" where
  "skills_from_categories [] skills_set = Inr skills_set"
| "skills_from_categories ((category, skill_list) # rest) skills_set =
     (case skill_list of
        JArr xs \<Rightarrow>
          and_then (lower_all xs) (\<lambda>ls. skills_from_categories rest (set_update skills_set ls))
      | _ \<Rightarrow> skills_from_categories rest skills_set)"

text \<open>
  What \<open>for resp in a + b\<close> runs over: two lists are concatenated, two strings too
  (and the loop then sees their characters); every other pair of JSON values fails
  with a \<open>TypeError\<close>, at the \<open>+\<close> or, for two numbers, at the loop over their sum.
\<close>

definition concat_items :: "json \<Rightarrow> json \<Rightarrow> error + json list" where
  "concat_items a b =
     (case (a, b) of
        (JArr xs, JArr ys) \<Rightarrow> Inr (xs @ ys)
      | (JStr s, JStr t) \<Rightarrow> Inr (map (\<lambda>c. JStr [c]) (s @ t))
      | _ \<Rightarrow> Inl TypeError)"

text \<open>\<open>exp.get('responsibilities', []) + exp.get('achievements', [])\<close>, iterated.\<close>

definition experience_items :: "json \<Rightarrow> error + json list" where
  "experience_items entry =
     and_then (py_get entry ''responsibilities'' (JArr [])) (\<lambda>a.
     and_then (py_get entry ''achievements'' (JArr [])) (\<lambda>b. concat_items a b))"

text \<open>The loop over the responsibilities of one entry; \<open>re.findall\<close> wants a string.\<close>

fun skills_from_items :: "json list \<Rightarrow> string list \<Rightarrow> error + string list" where
  "skills_from_items [] skills_set = Inr skills_set"
| "skills_from_items (resp # rest) skills_set =
     (case resp of
        JStr t \<Rightarrow>
          skills_from_items rest
            (set_update skills_set
               (map str_lower (filter (\<lambda>w. 3 < length w) (findall_caps False t))))
      | _ \<Rightarrow> Inl TypeError)"

fun skills_from_experience :: "json list \<Rightarrow> string list \<Rightarrow> error + string list" where
  "skills_from_experience [] skills_set = Inr skills_set"
| "skills_from_experience (entry # rest) skills_set =
     and_then (experience_items entry) (\<lambda>items.
     and_then (skills_from_items items skills_set) (\<lambda>skills_set1.
       skills_from_experience rest skills_set1))"

definition extract_candidate_skills :: "json \<Rightarrow> error + string list" where
  "extract_candidate_skills profile =
     and_then (py_get profile ''skills'' (JObj [])) (\<lambda>skills_data.
     and_then (case skills_data of
                 JObj kvs \<Rightarrow> skills_from_categories kvs []
               | JArr xs \<Rightarrow> and_then (lower_all xs) (\<lambda>ls. Inr (set_update [] ls))
               | _ \<Rightarrow> Inr []) (\<lambda>skills_set.
     and_then (py_get profile ''experience'' (JArr [])) (\<lambda>experience.
     and_then (py_iter experience) (\<lambda>exps. skills_from_experience exps skills_set))))"

subsection \<open>\_extract\_keywords\_from\_profile\<close>

text \<open>\<open>word.lower() for word in text.split() if len(word) > 4\<close>.\<close>

definition long_words :: "string \<Rightarrow> string list" where
  "long_words t = map str_lower (filter (\<lambda>w. 4 < length w) (py_split t))"

text \<open>\<open>' '.join(items)\<close> wants strings.\<close>

fun as_strings :: "json list \<Rightarrow> error + string list" where
  "as_strings [] = Inr []"
| "as_strings (v # vs) =
     (case v of
        JStr s \<Rightarrow> and_then (as_strings vs) (\<lambda>ss. Inr (s # ss))
      | _ \<Rightarrow> Inl TypeError)"

definition experience_text :: "json \<Rightarrow> error + string" where
  "experience_text entry =
     and_then (experience_items entry) (\<lambda>items.
     and_then (as_strings items) (\<lambda>ss. Inr (py_join '' '' ss)))"

fun keywords_from_experience :: "json list \<Rightarrow> string list \<Rightarrow> error + string list" where
  "keywords_from_experience [] keywords = Inr keywords"
| "keywords_from_experience (entry # rest) keywords =
     and_then (experience_text entry) (\<lambda>t.
       keywords_from_experience rest (set_update keywords (long_words t)))"

definition extract_keywords_from_profile :: "json \<Rightarrow> error + string list" where
  "extract_keywords_from_profile profile =
     and_then (py_get profile ''summary'' (JStr [])) (\<lambda>summary.
     and_then (case summary of
                 JStr s \<Rightarrow> Inr (set_update [] (long_words s))
               | _ \<Rightarrow> Inl AttributeError) (\<lambda>keywords.
     and_then (py_get profile ''experience'' (JArr [])) (\<lambda>experience.
     and_then (py_iter experience) (\<lambda>exps. keywords_from_experience exps keywords))))"

subsection \<open>\_count\_matches\<close>

text \<open>
  The inner loop over the candidate items, left at the first item that shares a word
  with the requirement.
\<close>

fun shares_word :: "string list \<Rightarrow> string list \<Rightarrow> bool" where
  "shares_word req_words [] = False"
| "shares_word req_words (cand_item # rest) =
     (if set req_words \<inter> set (py_split cand_item) \<noteq> {} then True
      else shares_word req_words rest)"

text \<open>The outer loop over the required items, the count \<open>matches\<close> as accumulator.\<close>

fun count_matches :: "string list \<Rightarrow> string list \<Rightarrow> nat \<Rightarrow> nat" where
  "count_matches [] candidate matches = matches"
| "count_matches (req_item # rest) candidate matches =
     (if req_item \<in> set candidate then count_matches rest candidate (matches + 1)
      else if shares_word (py_split req_item) candidate
           then count_matches rest candidate (matches + 1)
           else count_matches rest candidate matches)"

subsection \<open>\_generate\_recommendations\<close>

text \<open>
  The five messages. The two that name missing skills carry the text that the f-string
  puts in: up to five of the skills, joined by a comma and a space.
\<close>

datatype recommendation =
    LowMatch
  | AddRequired string
  | HighlightNiceToHave string
  | StrongMatch
  | ExcellentMatch

definition generate_recommendations ::
  "pynum \<Rightarrow> string list \<Rightarrow> string list \<Rightarrow> recommendation list" where
  "generate_recommendations score missing_required missing_nice_to_have =
     (let r1 = (if num_val score < 50 then [LowMatch] else []);
          r2 = (if missing_required \<noteq> []
                then r1 @ [AddRequired (py_join '', '' (take 5 missing_required))] else r1);
          r3 = (if missing_nice_to_have \<noteq> []
                then r2 @ [HighlightNiceToHave (py_join '', '' (take 5 missing_nice_to_have))]
                else r2);
          r4 = (if 70 \<le> num_val score then r3 @ [StrongMatch] else r3)
      in if r4 = [] then [ExcellentMatch] else r4)"

subsection \<open>calculate\_match\_score\<close>

text \<open>
  One of the three sets of the job side, as
  \<open>set(x.lower() for x in job_analysis.get(outer, {}).get(inner, []))\<close>.
\<close>

definition requirement_set :: "json \<Rightarrow> string \<Rightarrow> string \<Rightarrow> error + string list" where
  "requirement_set job_analysis outer inner =
     and_then (py_get job_analysis outer (JObj [])) (\<lambda>section_data.
     and_then (py_get section_data inner (JArr [])) (\<lambda>listed.
     and_then (py_iter listed) (\<lambda>items.
     and_then (lower_all items) (\<lambda>ls. Inr (set_update [] ls)))))"

text \<open>
  One of the three scores, as \<open>(matches / len(required) * weight) if required else default\<close>.
\<close>

definition weighted_score ::
  "(rat \<Rightarrow> rat) \<Rightarrow> nat \<Rightarrow> string list \<Rightarrow> int \<Rightarrow> int \<Rightarrow> error + pynum" where
  "weighted_score fl matches required weight dflt =
     (if required \<noteq> []
      then and_then (py_truediv fl (int matches) (int (length required)))
             (\<lambda>q. Inr (py_mul fl q (PInt weight)))
      else Inr (PInt dflt))"

text \<open>The local variables of \<open>calculate_match_score\<close> before the \<open>return\<close>.\<close>

record scoring =
  required_skills :: "string list"
  nice_to_have_skills :: "string list"
  ats_keywords :: "string list"
  candidate_skills :: "string list"
  candidate_keywords :: "string list"
  required_matches :: nat
  nice_to_have_matches :: nat
  keyword_matches :: nat
  required_score :: pynum
  nice_score :: pynum
  kw_score :: pynum
  overall :: pynum
  missing_required :: "string list"
  missing_nice_to_have :: "string list"

definition calculate_scores :: "(rat \<Rightarrow> rat) \<Rightarrow> json \<Rightarrow> json \<Rightarrow> error + scoring" where
  "calculate_scores fl profile job_analysis =
     and_then (requirement_set job_analysis ''requirements'' ''must_have_skills'') (\<lambda>req.
     and_then (requirement_set job_analysis ''requirements'' ''nice_to_have_skills'') (\<lambda>nice.
     and_then (requirement_set job_analysis ''keywords'' ''ats_keywords'') (\<lambda>ats.
     and_then (extract_candidate_skills profile) (\<lambda>cand_skills.
     and_then (extract_keywords_from_profile profile) (\<lambda>cand_keywords.
     and_then (weighted_score fl (count_matches req cand_skills 0) req 100 100) (\<lambda>rs.
     and_then (weighted_score fl (count_matches nice cand_skills 0) nice 50 0) (\<lambda>ns.
     and_then (weighted_score fl (count_matches ats cand_keywords 0) ats 30 0) (\<lambda>ks.
       Inr \<lparr>required_skills = req, nice_to_have_skills = nice, ats_keywords = ats,
            candidate_skills = cand_skills, candidate_keywords = cand_keywords,
            required_matches = count_matches req cand_skills 0,
            nice_to_have_matches = count_matches nice cand_skills 0,
            keyword_matches = count_matches ats cand_keywords 0,
            required_score = rs, nice_score = ns, kw_score = ks,
            overall = py_min (PInt 100) (py_add fl (py_add fl rs ns) ks),
            missing_required = set_difference req cand_skills,
            missing_nice_to_have = set_difference nice cand_skills\<rparr>))))))))"

text \<open>The returned dict.\<close>

record match_result =
  overall_score :: pynum
  required_skills_score :: pynum
  nice_to_have_score :: pynum
  keyword_score :: pynum
  required_skills_matched :: nat
  required_skills_total :: nat
  nice_to_have_matched :: nat
  nice_to_have_total :: nat
  keywords_matched :: nat
  keywords_total :: nat
  missing_required_skills :: "string list"
  missing_nice_to_have_skills :: "string list"
  recommendations :: "recommendation list"

definition match_result_of :: "(rat \<Rightarrow> rat) \<Rightarrow> scoring \<Rightarrow> match_result" where
  "match_result_of fl s =
     \<lparr>overall_score = py_round1 fl (overall s),
      required_skills_score = py_round1 fl (required_score s),
      nice_to_have_score = py_round1 fl (nice_score s),
      keyword_score = py_round1 fl (kw_score s),
      required_skills_matched = required_matches s,
      required_skills_total = length (required_skills s),
      nice_to_have_matched = nice_to_have_matches s,
      nice_to_have_total = length (nice_to_have_skills s),
      keywords_matched = keyword_matches s,
      keywords_total = length (ats_keywords s),
      missing_required_skills = take 10 (missing_required s),
      missing_nice_to_have_skills = take 10 (missing_nice_to_have s),
      recommendations =
        generate_recommendations (overall s) (missing_required s) (missing_nice_to_have s)\<rparr>"

definition calculate_match_score ::
  "(rat \<Rightarrow> rat) \<Rightarrow> json \<Rightarrow> json \<Rightarrow> error + match_result" where
  "calculate_match_score fl profile job_analysis =
     and_then (calculate_scores fl profile job_analysis) (\<lambda>s. Inr (match_result_of fl s))"

section \<open>The specification's notions\<close>







text \<open>A snippet whose content is a string, as the data model has it.\<close>

definition text_snippet :: "string \<times> (string \<times> json) list \<Rightarrow> snippet" where
  "text_snippet cm = \<lparr>content = JStr (fst cm), metadata = snd cm\<rparr>"

text \<open>
  A requirement is matched, as the specification words it: it is a member of the
  candidate set, or some item of the candidate set shares a whitespace-delimited word
  with it.
\<close>

definition requirement_matched :: "string list \<Rightarrow> string \<Rightarrow> bool" where
  "requirement_matched candidate req =
     (req \<in> set candidate
      \<or> (\<exists>c \<in> set candidate. set (py_split req) \<inter> set (py_split c) \<noteq> {}))"

text \<open>A computation that does not end in a division by zero.\<close>

definition no_zero_division :: "error + 'a \<Rightarrow> bool" where
  "no_zero_division r = (r \<noteq> Inl ZeroDivisionError)"

subsection \<open>Examples\<close>

text \<open>
  A stand-in for the runtime's \<open>str()\<close> in examples whose profiles give an f-string no
  number, list or dict to print.
\<close>

definition str_unused :: "json \<Rightarrow> string" where
  "str_unused v = []"

text \<open>
  A rounding for the examples, in place of the rounding to the nearest double: to the
  nearest multiple of \<open>1 / 1024\<close>, ties to the even one.
\<close>

definition fl_coarse :: "rat \<Rightarrow> rat" where
  "fl_coarse x = of_int (round_half_even (x * 1024)) / 1024"

text \<open>The inputs of the examples.\<close>

definition example_profile :: json where
  "example_profile =
     JObj [(''skills'', JObj [(''languages'', JArr [JStr ''Python''])]),
           (''summary'', JStr ''Engineer''),
           (''experience'', JArr [])]"

definition empty_job :: json where
  "empty_job =
     JObj [(''requirements'',
            JObj [(''must_have_skills'', JArr []), (''nice_to_have_skills'', JArr [])]),
           (''keywords'', JObj [(''ats_keywords'', JArr [])])]"

definition example_job :: json where
  "example_job =
     JObj [(''requirements'',
            JObj [(''must_have_skills'', JArr [JStr ''Python'', JStr ''Go'', JStr ''Rust'']),
                  (''nice_to_have_skills'', JArr [JStr ''Docker''])]),
           (''keywords'', JObj [(''ats_keywords'', JArr [JStr ''engineer''])])]"

definition example_contents :: "(string \<times> (string \<times> json) list) list" where
  "example_contents = [(''go and java'', []), (''java'', []), (''rust'', []), (''go'', [])]"

section \<open>Properties of the retrieval engine\<close>

lemma score_keywords_strings:
  "score_keywords cl (map JStr ks) acc =
     Inr (acc + sum_list (map (\<lambda>kw. loop_points cl (str_lower kw)) ks))"
  by (induction ks arbitrary: acc) (simp_all add: py_lower_def loop_points_def)

lemma score_snippets_strings:
  "score_snippets (map text_snippet cms) (map JStr ks) acc =
     Inr (acc @ map (\<lambda>cm. (loop_score ks (fst cm), text_snippet cm))
                  (filter (\<lambda>cm. 0 < loop_score ks (fst cm)) cms))"
  by (induction cms arbitrary: acc)
     (simp_all add: py_lower_def text_snippet_def score_keywords_strings loop_score_def)

lemma length_py_slice_to: "0 \<le> k \<Longrightarrow> int (length (py_slice_to xs k)) \<le> k"
  by (simp add: py_slice_to_def)

text \<open>
  C8. For every list of snippets, every list of keywords and every \<open>top_k = k\<close> that is
  not negative, the retrieval returns at most \<open>k\<close> snippets, and with \<open>top_k = 0\<close> it
  returns the empty list.
\<close>

theorem retrieve_top_k_bound:
  assumes "0 \<le> k"
  shows "(\<exists>r. retrieve_relevant_experience (map text_snippet cms) (map JStr ks) k = Inr r
              \<and> int (length r) \<le> k)
         \<and> retrieve_relevant_experience (map text_snippet cms) (map JStr ks) 0 = Inr []"
  using assms
  by (simp add: retrieve_relevant_experience_def score_snippets_strings length_py_slice_to)
     (simp add: py_slice_to_def)

theorem retrieve_top_k_bound_witness:
  "(\<exists>r. retrieve_relevant_experience
          (map text_snippet [(''Led migration to Python microservices'', []),
                             (''Built Python tooling'', [])])
          (map JStr [''Python'']) 1 = Inr r \<and> int (length r) \<le> 1)
   \<and> retrieve_relevant_experience
          (map text_snippet [(''Led migration to Python microservices'', []),
                             (''Built Python tooling'', [])])
          (map JStr [''Python'']) 0 = Inr []"
  using retrieve_top_k_bound [of 1 "[(''Led migration to Python microservices'', []),
                             (''Built Python tooling'', [])]" "[''Python'']"]
  by simp
lemma insort_key_map:
  "insort_key g (f x) (map f ys) = map f (insort_key (\<lambda>y. g (f y)) x ys)"
  by (induction ys) simp_all

lemma sort_key_map: "sort_key g (map f xs) = map f (sort_key (\<lambda>y. g (f y)) xs)"
  by (induction xs) (simp_all add: insort_key_map)

text \<open>The ranking behind a retrieval: the snippets with a positive score, best first.\<close>

lemma retrieve_strings:
  "retrieve_relevant_experience (map text_snippet cms) (map JStr ks) k =
     Inr (map text_snippet
            (py_slice_to (sort_key (\<lambda>cm. - loop_score ks (fst cm))
                            (filter (\<lambda>cm. 0 < loop_score ks (fst cm)) cms)) k))"
proof -
  let ?pos = "filter (\<lambda>cm. 0 < loop_score ks (fst cm)) cms"
  let ?f = "\<lambda>cm. (loop_score ks (fst cm), text_snippet cm)"
  have "sort_by_score_desc (map ?f ?pos) = map ?f (sort_key (\<lambda>cm. - loop_score ks (fst cm)) ?pos)"
    by (simp add: sort_by_score_desc_def sort_key_map)
  moreover have "py_slice_to (map ?f xs) k = map ?f (py_slice_to xs k)" for xs
    by (simp add: py_slice_to_def take_map)
  ultimately show ?thesis
    by (simp add: retrieve_relevant_experience_def score_snippets_strings comp_def)
qed
















text \<open>
  The stable sort by descending score of the snippets of positive score is the one list
  that holds these snippets, those of each score in their original order, and is
  ordered by descending score.
\<close>

lemma ranking_characterised:
  fixes sc :: "string \<Rightarrow> int" and cms :: "(string \<times> 'a) list"
  defines "ranked \<equiv> sort_key (\<lambda>cm. - sc (fst cm)) (filter (\<lambda>cm. 0 < sc (fst cm)) cms)"
  shows "(\<forall>v. filter (\<lambda>cm. sc (fst cm) = v) ranked
               = (if 0 < v then filter (\<lambda>cm. sc (fst cm) = v) cms else []))
         \<and> sorted_wrt (\<lambda>a b. sc (fst b) \<le> sc (fst a)) ranked"
proof -
  let ?pos = "filter (\<lambda>cm. 0 < sc (fst cm)) cms"
  have stable: "filter (\<lambda>cm. sc (fst cm) = v) ranked
                = (if 0 < v then filter (\<lambda>cm. sc (fst cm) = v) cms else [])" for v
  proof -
    have "filter (\<lambda>cm. - sc (fst cm) = - v) ranked = filter (\<lambda>cm. - sc (fst cm) = - v) ?pos"
      unfolding ranked_def by (rule sort_key_stable)
    then have "filter (\<lambda>cm. sc (fst cm) = v) ranked = filter (\<lambda>cm. sc (fst cm) = v) ?pos"
      by simp
    also have "\<dots> = (if 0 < v then filter (\<lambda>cm. sc (fst cm) = v) cms else [])"
      by (auto intro: filter_cong simp: filter_empty_conv)
    finally show ?thesis .
  qed
  have "sorted (map (\<lambda>cm. - sc (fst cm)) ranked)"
    unfolding ranked_def by (rule sorted_sort_key)
  then have "sorted_wrt (\<lambda>a b. sc (fst b) \<le> sc (fst a)) ranked"
    by (simp add: sorted_map)
  with stable show ?thesis by blast
qed




text \<open>
  C9. For every snippet and every list of keywords, putting one more keyword into the
  list, one that matches the content of the snippet as a whole word, never lowers the
  score of the snippet.
\<close>

theorem score_monotone_in_keywords:
  assumes "word_search (str_lower kw) (str_lower c)"
  shows "\<exists>a b. score_keywords (str_lower c) (map JStr (ks1 @ ks2)) 0 = Inr a
               \<and> score_keywords (str_lower c) (map JStr (ks1 @ kw # ks2)) 0 = Inr b
               \<and> a \<le> b"
proof -
  let ?pts = "\<lambda>k. loop_points (str_lower c) (str_lower k)"
  have "score_keywords (str_lower c) (map JStr (ks1 @ ks2)) 0
          = Inr (0 + sum_list (map ?pts (ks1 @ ks2)))"
    by (rule score_keywords_strings)
  moreover have "score_keywords (str_lower c) (map JStr (ks1 @ kw # ks2)) 0
          = Inr (0 + sum_list (map ?pts (ks1 @ kw # ks2)))"
    by (rule score_keywords_strings)
  moreover have "sum_list (map ?pts (ks1 @ ks2)) \<le> sum_list (map ?pts (ks1 @ kw # ks2))"
    using assms by (simp add: loop_points_def)
  ultimately show ?thesis by simp
qed

theorem score_monotone_in_keywords_witness:
  "word_search (str_lower ''Python'') (str_lower ''Led migration to Python microservices'')
   \<and> (\<exists>a b. score_keywords (str_lower ''Led migration to Python microservices'')
               (map JStr ([''led''] @ [''micro''])) 0 = Inr a
            \<and> score_keywords (str_lower ''Led migration to Python microservices'')
               (map JStr ([''led''] @ ''Python'' # [''micro''])) 0 = Inr b
            \<and> a \<le> b)"
proof -
  have h: "word_search (str_lower ''Python'') (str_lower ''Led migration to Python microservices'')"
    by code_simp
  from h score_monotone_in_keywords [OF h, of "[''led'']" "[''micro'']"] show ?thesis
    by blast
qed

text \<open>
  C10. With a negative \<open>top_k = - n\<close> the retrieval neither fails nor returns the empty
  list as such: it returns the ranked matching snippets without their last
  \<open>min n (number of matches)\<close> entries, so the bound \<open>length \<le> top_k\<close> does not hold.
  The ranked matching snippets are the snippets to which the keyword loop gives a
  positive score, by descending score, those of equal score in their original order;
  they are what \<open>top_k = length snippets\<close> returns. This is the list \<open>results\<close> of the
  method, and what the whole method returns once its log line is printed.
\<close>

theorem retrieve_negative_top_k:
  assumes "0 < n"
  shows "\<exists>ranked.
           (\<forall>c. score_keywords (str_lower c) (map JStr ks) 0 = Inr (loop_score ks c))
         \<and> (\<forall>v. filter (\<lambda>cm. loop_score ks (fst cm) = v) ranked
                = (if 0 < v then filter (\<lambda>cm. loop_score ks (fst cm) = v) cms else []))
         \<and> sorted_wrt (\<lambda>a b. loop_score ks (fst b) \<le> loop_score ks (fst a)) ranked
         \<and> retrieve_relevant_experience (map text_snippet cms) (map JStr ks) (int (length cms))
             = Inr (map text_snippet ranked)
         \<and> retrieve_relevant_experience (map text_snippet cms) (map JStr ks) (- int n)
             = Inr (map text_snippet (take (length ranked - min n (length ranked)) ranked))
         \<and> retrieve_and_print True (map text_snippet cms) (map JStr ks) (- int n)
             = Inr (map text_snippet (take (length ranked - min n (length ranked)) ranked))
         \<and> length (take (length ranked - min n (length ranked)) ranked)
             = length ranked - min n (length ranked)
         \<and> - int n < int (length (take (length ranked - min n (length ranked)) ranked))"
proof -
  let ?all = "sort_key (\<lambda>cm. - loop_score ks (fst cm))
                (filter (\<lambda>cm. 0 < loop_score ks (fst cm)) cms)"
  have len: "length ?all \<le> length cms"
    by simp
  have full: "py_slice_to ?all (int (length cms)) = ?all"
    using len by (simp add: py_slice_to_def)
  have neg: "py_slice_to ?all (- int n) = take (length ?all - min n (length ?all)) ?all"
    using assms by (simp add: py_slice_to_def nat_diff_distrib' min_def)
  have sc: "\<forall>c. score_keywords (str_lower c) (map JStr ks) 0 = Inr (loop_score ks c)"
    by (simp add: score_keywords_strings loop_score_def)
  have r1: "retrieve_relevant_experience (map text_snippet cms) (map JStr ks) (int (length cms))
              = Inr (map text_snippet ?all)"
    by (simp only: retrieve_strings full)
  have r2: "retrieve_relevant_experience (map text_snippet cms) (map JStr ks) (- int n)
              = Inr (map text_snippet (take (length ?all - min n (length ?all)) ?all))"
    by (simp only: retrieve_strings neg)
  have r3: "retrieve_and_print True (map text_snippet cms) (map JStr ks) (- int n)
              = Inr (map text_snippet (take (length ?all - min n (length ?all)) ?all))"
    by (simp only: retrieve_and_print_def r2) (simp add: and_then_def print_line_def)
  have l1: "length (take (length ?all - min n (length ?all)) ?all)
              = length ?all - min n (length ?all)"
    by simp
  have l2: "- int n < int (length (take (length ?all - min n (length ?all)) ?all))"
    using assms by simp
  from ranking_characterised [of "loop_score ks" cms] sc r1 r2 r3 l1 l2 show ?thesis
    by blast
qed

theorem retrieve_negative_top_k_witness:
  "retrieve_relevant_experience
     (map text_snippet example_contents)
     (map JStr [''Go'', ''Java'']) (- int 1)
     = Inr (map text_snippet [(''go and java'', []), (''java'', [])])
   \<and> retrieve_relevant_experience
     (map text_snippet example_contents)
     (map JStr [''Go'', ''Java''])
     (int (length example_contents))
     = Inr (map text_snippet [(''go and java'', []), (''java'', []), (''go'', [])])
   \<and> (\<exists>ranked.
         (\<forall>c. score_keywords (str_lower c) (map JStr [''Go'', ''Java'']) 0
                = Inr (loop_score [''Go'', ''Java''] c))
       \<and> (\<forall>v. filter (\<lambda>cm. loop_score [''Go'', ''Java''] (fst cm) = v) ranked
              = (if 0 < v
                 then filter (\<lambda>cm. loop_score [''Go'', ''Java''] (fst cm) = v)
                        example_contents
                 else []))
       \<and> sorted_wrt (\<lambda>a b. loop_score [''Go'', ''Java''] (fst b)
                             \<le> loop_score [''Go'', ''Java''] (fst a)) ranked
       \<and> retrieve_relevant_experience
           (map text_snippet example_contents)
           (map JStr [''Go'', ''Java''])
           (int (length example_contents))
           = Inr (map text_snippet ranked)
       \<and> retrieve_relevant_experience
           (map text_snippet example_contents)
           (map JStr [''Go'', ''Java'']) (- int 1)
           = Inr (map text_snippet (take (length ranked - min 1 (length ranked)) ranked))
       \<and> retrieve_and_print True
           (map text_snippet example_contents)
           (map JStr [''Go'', ''Java'']) (- int 1)
           = Inr (map text_snippet (take (length ranked - min 1 (length ranked)) ranked))
       \<and> length (take (length ranked - min 1 (length ranked)) ranked)
           = length ranked - min 1 (length ranked)
       \<and> - int 1 < int (length (take (length ranked - min 1 (length ranked)) ranked)))"
proof -
  have a: "retrieve_relevant_experience
     (map text_snippet example_contents)
     (map JStr [''Go'', ''Java'']) (- int 1)
     = Inr (map text_snippet [(''go and java'', []), (''java'', [])])"
    by code_simp
  have b: "retrieve_relevant_experience
     (map text_snippet example_contents)
     (map JStr [''Go'', ''Java''])
     (int (length example_contents))
     = Inr (map text_snippet [(''go and java'', []), (''java'', []), (''go'', [])])"
    by code_simp
  have pos: "(0::nat) < 1" by simp
  show ?thesis
    by (intro conjI a b retrieve_negative_top_k [OF pos])
qed

section \<open>Properties of the snippet store\<close>


lemma experience_loop_accepted:
  "experience_loop roles acc = (ss, None) \<Longrightarrow>
   \<exists>per. map role_snippets roles = map Inr per \<and> ss = acc @ concat per"
proof (induction roles arbitrary: acc)
  case Nil
  then show ?case by simp
next
  case (Cons role roles)
  then obtain new where new: "role_snippets role = Inr new"
    by (cases "role_snippets role") auto
  with Cons.prems have "experience_loop roles (acc @ new) = (ss, None)"
    by simp
  from Cons.IH [OF this] obtain per where
    "map role_snippets roles = map Inr per" "ss = (acc @ new) @ concat per"
    by blast
  with new have "map role_snippets (role # roles) = map Inr (new # per) \<and> ss = acc @ concat (new # per)"
    by simp
  then show ?case by blast
qed

lemma project_loop_accepted:
  "project_loop str_of projects acc = (ss, None) \<Longrightarrow>
   \<exists>ps. map (project_snippet str_of) projects = map Inr ps \<and> ss = acc @ ps"
proof (induction projects arbitrary: acc)
  case Nil
  then show ?case by simp
next
  case (Cons project projects)
  then obtain new where new: "project_snippet str_of project = Inr new"
    by (cases "project_snippet str_of project") auto
  with Cons.prems have "project_loop str_of projects (acc @ [new]) = (ss, None)"
    by simp
  from Cons.IH [OF this] obtain ps where
    "map (project_snippet str_of) projects = map Inr ps" "ss = (acc @ [new]) @ ps"
    by blast
  with new have "map (project_snippet str_of) (project # projects) = map Inr (new # ps)
                 \<and> ss = acc @ (new # ps)"
    by simp
  then show ?case by blast
qed

lemma role_snippets_contents:
  "role_snippets role = Inr rs \<Longrightarrow> role_items role = Inr (map content rs)"
  by (auto simp: role_snippets_def and_then_def comp_def split: sum.splits)

lemma project_snippet_content:
  "project_snippet str_of project = Inr s \<Longrightarrow> \<exists>t. content s = JStr (''Project '' @ t)"
  by (auto simp: project_snippet_def and_then_def split: sum.splits)


text \<open>With a \<open>stdout\<close> that takes the log lines, the constructor returns what the body left.\<close>

lemma rag_engine_init_printing:
  "rag_engine_init str_of True loaded =
     (case try_initialize str_of loaded [] of
        (ss, None) \<Rightarrow> Inr \<lparr>snippets = ss, printed = Initialized (length ss)\<rparr>
      | (ss, Some e) \<Rightarrow> Inr \<lparr>snippets = ss, printed = InitializationFailed e\<rparr>)"
  by (simp add: rag_engine_init_def initialize_snippets_def print_line_def and_then_def
      split: prod.splits option.splits)

text \<open>
  With a \<open>stdout\<close> that cannot encode the log lines, the constructor raises, whatever the
  profile is.
\<close>

lemma rag_engine_init_not_printing:
  "rag_engine_init str_of False loaded = Inl UnicodeEncodeError"
  by (simp add: rag_engine_init_def initialize_snippets_def print_line_def and_then_def
      split: prod.splits option.splits)

lemma rag_engine_init_accepted:
  assumes "rag_engine_init str_of stdout_ok loaded
             = Inr \<lparr>snippets = ss, printed = Initialized n\<rparr>"
  shows "try_initialize str_of loaded [] = (ss, None) \<and> n = length ss"
proof (cases stdout_ok)
  case False
  with assms show ?thesis
    by (simp add: rag_engine_init_not_printing)
next
  case True
  with assms show ?thesis
    by (auto simp: rag_engine_init_printing split: prod.splits option.splits)
qed




text \<open>
  C5, as amended. For every profile that the construction accepts, the store holds, role
  by role and then project by project, one snippet for each item of a role, in the
  order of the items and with the item itself as content (so no snippet spans two
  achievements, and the content is a non-empty string exactly when the item is one),
  and one snippet for each project, whose content is a string that starts with
  \<open>Project\<close>.
\<close>

theorem snippet_store_accepted:
  assumes "rag_engine_init str_of stdout_ok (Inr profile)
             = Inr \<lparr>snippets = ss, printed = Initialized n\<rparr>"
  shows "\<exists>roles per projects ps.
           and_then (py_get profile ''experience'' (JArr [])) py_iter = Inr roles
         \<and> and_then (py_get profile ''projects'' (JArr [])) py_iter = Inr projects
         \<and> map role_snippets roles = map Inr per
         \<and> map (project_snippet str_of) projects = map Inr ps
         \<and> ss = concat per @ ps \<and> n = length ss
         \<and> list_all2 (\<lambda>role rs. role_items role = Inr (map content rs)) roles per
         \<and> list_all (\<lambda>s. \<exists>t. content s = JStr (''Project '' @ t)) ps"
proof -
  from rag_engine_init_accepted [OF assms]
  have body: "try_initialize str_of (Inr profile) [] = (ss, None)" and n: "n = length ss"
    by simp_all
  from body obtain roles where roles:
    "and_then (py_get profile ''experience'' (JArr [])) py_iter = Inr roles"
    by (cases "and_then (py_get profile ''experience'' (JArr [])) py_iter")
       (auto simp: try_initialize_def)
  obtain s1 r1 where loop1: "experience_loop roles [] = (s1, r1)"
    by (cases "experience_loop roles []")
  from body roles loop1 have r1: "r1 = None"
    by (cases r1) (auto simp: try_initialize_def)
  from body roles loop1 r1 obtain projects where projects:
    "and_then (py_get profile ''projects'' (JArr [])) py_iter = Inr projects"
    by (cases "and_then (py_get profile ''projects'' (JArr [])) py_iter")
       (auto simp: try_initialize_def)
  from body roles loop1 r1 projects
  have loop2: "project_loop str_of projects s1 = (ss, None)"
    by (auto simp: try_initialize_def split: prod.splits option.splits)
  from experience_loop_accepted [OF loop1 [unfolded r1]] obtain per where
    per: "map role_snippets roles = map Inr per" "s1 = concat per"
    by auto
  from project_loop_accepted [OF loop2] obtain ps where
    ps: "map (project_snippet str_of) projects = map Inr ps" "ss = s1 @ ps"
    by auto
  have items: "list_all2 (\<lambda>role rs. role_items role = Inr (map content rs)) roles per"
  proof (rule list_all2_all_nthI)
    show "length roles = length per"
      using per(1) by (metis length_map)
  next
    fix i assume "i < length roles"
    with per(1) have "role_snippets (roles ! i) = Inr (per ! i)"
      by (metis length_map nth_map)
    then show "role_items (roles ! i) = Inr (map content (per ! i))"
      by (rule role_snippets_contents)
  qed
  have texts: "list_all (\<lambda>s. \<exists>t. content s = JStr (''Project '' @ t)) ps"
    unfolding list_all_length
  proof (intro allI impI)
    fix i assume "i < length ps"
    with ps(1) have "project_snippet str_of (projects ! i) = Inr (ps ! i)"
      by (metis length_map nth_map)
    then show "\<exists>t. content (ps ! i) = JStr (''Project '' @ t)"
      by (rule project_snippet_content)
  qed
  from roles projects per ps n items texts show ?thesis
    by blast
qed

theorem snippet_store_accepted_witness:
  "rag_engine_init str_unused True
     (Inr (JObj [(''experience'',
                  JArr [JObj [(''company'', JStr ''Acme''),
                              (''achievements'', JArr [JStr ''Built X'', JStr ''Led Y''])]]),
                 (''projects'', JArr [JObj [(''name'', JStr ''Zeta'')]])]))
     = Inr \<lparr>snippets =
          [\<lparr>content = JStr ''Built X'',
            metadata = [(''type'', JStr ''experience''), (''company'', JStr ''Acme''),
                        (''title'', JStr ''Position''), (''dates'', JStr [])]\<rparr>,
           \<lparr>content = JStr ''Led Y'',
            metadata = [(''type'', JStr ''experience''), (''company'', JStr ''Acme''),
                        (''title'', JStr ''Position''), (''dates'', JStr [])]\<rparr>,
           \<lparr>content = JStr ''Project Zeta: None'',
            metadata = [(''type'', JStr ''project''), (''name'', JStr ''Zeta'')]\<rparr>],
        printed = Initialized 3\<rparr>
   \<and> (\<exists>roles per projects ps.
         and_then (py_get (JObj [(''experience'',
                  JArr [JObj [(''company'', JStr ''Acme''),
                              (''achievements'', JArr [JStr ''Built X'', JStr ''Led Y''])]]),
                 (''projects'', JArr [JObj [(''name'', JStr ''Zeta'')]])])
               ''experience'' (JArr [])) py_iter = Inr roles
       \<and> map role_snippets roles = map Inr per
       \<and> map (project_snippet str_unused) projects = map Inr ps
       \<and> list_all2 (\<lambda>role rs. role_items role = Inr (map content rs)) roles per
       \<and> list_all (\<lambda>s. \<exists>t. content s = JStr (''Project '' @ t)) ps)"
proof -
  let ?p = "JObj [(''experience'',
                  JArr [JObj [(''company'', JStr ''Acme''),
                              (''achievements'', JArr [JStr ''Built X'', JStr ''Led Y''])]]),
                 (''projects'', JArr [JObj [(''name'', JStr ''Zeta'')]])]"
  let ?ss = "[\<lparr>content = JStr ''Built X'',
            metadata = [(''type'', JStr ''experience''), (''company'', JStr ''Acme''),
                        (''title'', JStr ''Position''), (''dates'', JStr [])]\<rparr>,
           \<lparr>content = JStr ''Led Y'',
            metadata = [(''type'', JStr ''experience''), (''company'', JStr ''Acme''),
                        (''title'', JStr ''Position''), (''dates'', JStr [])]\<rparr>,
           \<lparr>content = JStr ''Project Zeta: None'',
            metadata = [(''type'', JStr ''project''), (''name'', JStr ''Zeta'')]\<rparr>]"
  have h: "rag_engine_init str_unused True (Inr ?p)
             = Inr \<lparr>snippets = ?ss, printed = Initialized 3\<rparr>"
    by (simp add: rag_engine_init_def initialize_snippets_def try_initialize_def print_line_def
        role_snippets_def role_items_def project_snippet_def py_format_def
        and_then_def py_get_def py_iter_def)
  from snippet_store_accepted [OF h] h show ?thesis
    by blast
qed

text \<open>
  The claim C5 as it was stated fails: the construction accepts a profile with an empty
  achievement and builds a snippet with empty content from it.
\<close>

theorem snippet_store_empty_content:
  "rag_engine_init str_unused True
     (Inr (JObj [(''experience'', JArr [JObj [(''achievements'', JArr [JStr []])]])]))
     = Inr \<lparr>snippets =
          [\<lparr>content = JStr [],
            metadata = [(''type'', JStr ''experience''), (''company'', JStr ''Unknown''),
                        (''title'', JStr ''Position''), (''dates'', JStr [])]\<rparr>],
        printed = Initialized 1\<rparr>"
  by (simp add: rag_engine_init_def initialize_snippets_def try_initialize_def print_line_def
      role_snippets_def role_items_def and_then_def py_get_def py_iter_def)

section \<open>Properties of the match calculator\<close>

lemma shares_word_iff:
  "shares_word ws candidate = (\<exists>c \<in> set candidate. set ws \<inter> set (py_split c) \<noteq> {})"
  by (induction candidate) auto

lemma count_matches_filter:
  "count_matches required candidate n
     = n + length (filter (requirement_matched candidate) required)"
  by (induction required arbitrary: n)
     (simp_all add: requirement_matched_def shares_word_iff)

text \<open>
  C3. A requirement is counted as matched if and only if it is a member of the
  candidate set or shares a whitespace-delimited word with some candidate item, and it
  is counted once however many candidate items overlap it: the count is the number of
  matched requirements, for every order in which the two sets are iterated.
\<close>

theorem count_matches_fuzzy:
  "count_matches required candidate 0 = length (filter (requirement_matched candidate) required)
   \<and> count_matches [req] candidate 0 = (if requirement_matched candidate req then 1 else 0)
   \<and> count_matches required candidate 0 \<le> length required
   \<and> (distinct required \<longrightarrow>
        count_matches required candidate 0
          = card {r \<in> set required. requirement_matched candidate r})"
proof -
  have "length (filter (requirement_matched candidate) required)
          = card {r \<in> set required. requirement_matched candidate r}"
    if "distinct required"
  proof -
    from that have "distinct (filter (requirement_matched candidate) required)"
      by simp
    then have "card (set (filter (requirement_matched candidate) required))
                 = length (filter (requirement_matched candidate) required)"
      by (rule distinct_card)
    then show ?thesis by simp
  qed
  then show ?thesis
    by (simp add: count_matches_filter)
qed

theorem count_matches_fuzzy_witness:
  "count_matches [''project management'', ''go'', ''python''] [''python'', ''project'', ''project x''] 0
     = card {r \<in> set [''project management'', ''go'', ''python''].
               requirement_matched [''python'', ''project'', ''project x''] r}
   \<and> count_matches [''project management'', ''go'', ''python''] [''python'', ''project'', ''project x''] 0
     = 2"
proof -
  have d: "distinct [''project management'', ''go'', ''python'']"
    by simp
  have v: "count_matches [''project management'', ''go'', ''python'']
             [''python'', ''project'', ''project x''] 0 = 2"
    by code_simp
  from count_matches_fuzzy [of "[''project management'', ''go'', ''python'']"
      "[''python'', ''project'', ''project x'']" "''go''"] d v
  show ?thesis by simp
qed

lemma nzd_Inr: "no_zero_division (Inr v)"
  by (simp add: no_zero_division_def)

lemma nzd_and_then:
  "no_zero_division r \<Longrightarrow> (\<And>v. no_zero_division (f v)) \<Longrightarrow> no_zero_division (and_then r f)"
  by (cases r) (simp_all add: and_then_def no_zero_division_def)

lemma nzd_py_get: "no_zero_division (py_get d k dflt)"
  by (cases d) (simp_all add: py_get_def no_zero_division_def)

lemma nzd_py_iter: "no_zero_division (py_iter v)"
  by (cases v) (simp_all add: py_iter_def no_zero_division_def)

lemma nzd_py_lower: "no_zero_division (py_lower v)"
  by (cases v) (simp_all add: py_lower_def no_zero_division_def)

lemma nzd_lower_all: "no_zero_division (lower_all vs)"
  by (induction vs) (auto intro!: nzd_and_then nzd_Inr nzd_py_lower)

lemma nzd_skills_from_categories: "no_zero_division (skills_from_categories kvs acc)"
proof (induction kvs arbitrary: acc)
  case Nil
  show ?case by (simp add: nzd_Inr)
next
  case (Cons kv kvs)
  obtain k v where kv: "kv = (k, v)" by (cases kv)
  show ?case
    unfolding kv
    by (cases v) (auto intro!: nzd_and_then nzd_lower_all Cons.IH)
qed

lemma nzd_concat_items: "no_zero_division (concat_items a b)"
  by (cases a; cases b) (simp_all add: concat_items_def no_zero_division_def)

lemma nzd_experience_items: "no_zero_division (experience_items entry)"
  unfolding experience_items_def
  by (intro nzd_and_then nzd_py_get nzd_concat_items)

lemma nzd_skills_from_items: "no_zero_division (skills_from_items items acc)"
proof (induction items arbitrary: acc)
  case Nil
  show ?case by (simp add: nzd_Inr)
next
  case (Cons v vs)
  show ?case
    by (cases v) (simp_all add: Cons.IH, simp_all add: no_zero_division_def)
qed

lemma nzd_skills_from_experience: "no_zero_division (skills_from_experience es acc)"
  by (induction es arbitrary: acc)
     (auto intro!: nzd_and_then nzd_Inr nzd_experience_items nzd_skills_from_items)

lemma nzd_extract_candidate_skills: "no_zero_division (extract_candidate_skills profile)"
proof -
  have "no_zero_division
          (case skills_data of
             JObj kvs \<Rightarrow> skills_from_categories kvs []
           | JArr xs \<Rightarrow> and_then (lower_all xs) (\<lambda>ls. Inr (set_update [] ls))
           | _ \<Rightarrow> Inr [])" for skills_data
    by (cases skills_data)
       (auto intro!: nzd_and_then nzd_Inr nzd_lower_all nzd_skills_from_categories)
  then show ?thesis
    unfolding extract_candidate_skills_def
    by (intro nzd_and_then nzd_py_get nzd_py_iter nzd_skills_from_experience)
qed

lemma nzd_as_strings: "no_zero_division (as_strings vs)"
proof (induction vs)
  case Nil
  show ?case by (simp add: nzd_Inr)
next
  case (Cons v vs)
  have "no_zero_division (and_then (as_strings vs) (\<lambda>ss. Inr (s # ss)))" for s
    by (intro nzd_and_then Cons.IH nzd_Inr)
  then show ?case
    by (cases v) (simp_all, simp_all add: no_zero_division_def)
qed

lemma nzd_experience_text: "no_zero_division (experience_text entry)"
  unfolding experience_text_def
  by (intro nzd_and_then nzd_experience_items nzd_as_strings nzd_Inr)

lemma nzd_keywords_from_experience: "no_zero_division (keywords_from_experience es acc)"
  by (induction es arbitrary: acc) (auto intro!: nzd_and_then nzd_Inr nzd_experience_text)

lemma nzd_extract_keywords: "no_zero_division (extract_keywords_from_profile profile)"
proof -
  have "no_zero_division
          (case summary of JStr s \<Rightarrow> Inr (set_update [] (long_words s))
           | _ \<Rightarrow> Inl AttributeError)" for summary
    by (cases summary) (simp_all add: no_zero_division_def)
  then show ?thesis
    unfolding extract_keywords_from_profile_def
    by (intro nzd_and_then nzd_py_get nzd_py_iter nzd_keywords_from_experience)
qed

lemma nzd_requirement_set: "no_zero_division (requirement_set job outer inner)"
  unfolding requirement_set_def
  by (intro nzd_and_then nzd_py_get nzd_py_iter nzd_lower_all nzd_Inr)

text \<open>The guard \<open>if required\<close> keeps the divisor \<open>len(required)\<close> away from zero.\<close>

lemma weighted_score_returns:
  "weighted_score fl matches required weight dflt =
     Inr (if required \<noteq> []
          then py_mul fl (PFloat (fl (of_int (int matches) / of_int (int (length required)))))
                 (PInt weight)
          else PInt dflt)"
  by (simp add: weighted_score_def py_truediv_def and_then_def)

lemma nzd_calculate_scores: "no_zero_division (calculate_scores fl profile job)"
  unfolding calculate_scores_def
  by (intro nzd_and_then nzd_requirement_set nzd_extract_candidate_skills nzd_extract_keywords)
     (simp_all only: weighted_score_returns nzd_Inr)

lemma calculate_scores_fields:
  assumes "calculate_scores fl profile job = Inr s"
  shows "requirement_set job ''requirements'' ''must_have_skills'' = Inr (required_skills s)"
    and "requirement_set job ''requirements'' ''nice_to_have_skills'' = Inr (nice_to_have_skills s)"
    and "requirement_set job ''keywords'' ''ats_keywords'' = Inr (ats_keywords s)"
    and "extract_candidate_skills profile = Inr (candidate_skills s)"
    and "extract_keywords_from_profile profile = Inr (candidate_keywords s)"
    and "weighted_score fl (required_matches s) (required_skills s) 100 100 = Inr (required_score s)"
    and "weighted_score fl (nice_to_have_matches s) (nice_to_have_skills s) 50 0 = Inr (nice_score s)"
    and "weighted_score fl (keyword_matches s) (ats_keywords s) 30 0 = Inr (kw_score s)"
    and "required_matches s = count_matches (required_skills s) (candidate_skills s) 0"
    and "nice_to_have_matches s = count_matches (nice_to_have_skills s) (candidate_skills s) 0"
    and "keyword_matches s = count_matches (ats_keywords s) (candidate_keywords s) 0"
    and "overall s = py_min (PInt 100)
                       (py_add fl (py_add fl (required_score s) (nice_score s)) (kw_score s))"
    and "missing_required s = set_difference (required_skills s) (candidate_skills s)"
    and "missing_nice_to_have s = set_difference (nice_to_have_skills s) (candidate_skills s)"
  using assms
  by (auto simp: calculate_scores_def and_then_def split: sum.splits)

text \<open>
  C6. When \<open>must_have_skills\<close> is empty the required score is 100, when
  \<open>nice_to_have_skills\<close> is empty the nice-to-have score is 0, when \<open>ats_keywords\<close> is
  empty the keyword score is 0, for the local variables and for the returned fields;
  and no input makes \<open>calculate_match_score\<close> end in a division by zero.
\<close>

theorem empty_requirement_defaults:
  "calculate_match_score fl profile job \<noteq> Inl ZeroDivisionError
   \<and> (calculate_scores fl profile job = Inr s \<and> calculate_match_score fl profile job = Inr r
        \<longrightarrow>
        (requirement_set job ''requirements'' ''must_have_skills'' = Inr []
           \<longrightarrow> required_score s = PInt 100 \<and> required_skills_score r = PInt 100)
      \<and> (requirement_set job ''requirements'' ''nice_to_have_skills'' = Inr []
           \<longrightarrow> nice_score s = PInt 0 \<and> nice_to_have_score r = PInt 0)
      \<and> (requirement_set job ''keywords'' ''ats_keywords'' = Inr []
           \<longrightarrow> kw_score s = PInt 0 \<and> keyword_score r = PInt 0))"
proof -
  have "no_zero_division (calculate_match_score fl profile job)"
    unfolding calculate_match_score_def
    by (intro nzd_and_then nzd_calculate_scores nzd_Inr)
  then have a: "calculate_match_score fl profile job \<noteq> Inl ZeroDivisionError"
    by (simp add: no_zero_division_def)
  have b: "(requirement_set job ''requirements'' ''must_have_skills'' = Inr []
           \<longrightarrow> required_score s = PInt 100 \<and> required_skills_score r = PInt 100)
      \<and> (requirement_set job ''requirements'' ''nice_to_have_skills'' = Inr []
           \<longrightarrow> nice_score s = PInt 0 \<and> nice_to_have_score r = PInt 0)
      \<and> (requirement_set job ''keywords'' ''ats_keywords'' = Inr []
           \<longrightarrow> kw_score s = PInt 0 \<and> keyword_score r = PInt 0)"
    if s: "calculate_scores fl profile job = Inr s"
      and r: "calculate_match_score fl profile job = Inr r"
  proof -
    from s r have r_def: "r = match_result_of fl s"
      by (simp add: calculate_match_score_def and_then_def)
    note f = calculate_scores_fields [OF s]
    have "required_score s = PInt 100" if "required_skills s = []"
      using f(6) that by (simp add: weighted_score_returns)
    moreover have "nice_score s = PInt 0" if "nice_to_have_skills s = []"
      using f(7) that by (simp add: weighted_score_returns)
    moreover have "kw_score s = PInt 0" if "ats_keywords s = []"
      using f(8) that by (simp add: weighted_score_returns)
    ultimately show ?thesis
      using f(1) f(2) f(3) by (auto simp: r_def match_result_of_def)
  qed
  from a b show ?thesis by blast
qed

lemma example_scores_empty_job:
  "calculate_scores id example_profile empty_job =
     Inr \<lparr>required_skills = [], nice_to_have_skills = [], ats_keywords = [],
          candidate_skills = [''python''], candidate_keywords = [''engineer''],
          required_matches = 0, nice_to_have_matches = 0, keyword_matches = 0,
          required_score = PInt 100, nice_score = PInt 0, kw_score = PInt 0,
          overall = PInt 100, missing_required = [], missing_nice_to_have = []\<rparr>"
  by code_simp

lemma example_result_empty_job:
  "calculate_match_score id example_profile empty_job =
     Inr \<lparr>overall_score = PInt 100, required_skills_score = PInt 100,
          nice_to_have_score = PInt 0, keyword_score = PInt 0,
          required_skills_matched = 0, required_skills_total = 0,
          nice_to_have_matched = 0, nice_to_have_total = 0,
          keywords_matched = 0, keywords_total = 0,
          missing_required_skills = [], missing_nice_to_have_skills = [],
          recommendations = [StrongMatch]\<rparr>"
  by code_simp

lemma empty_job_sets:
  "requirement_set empty_job ''requirements'' ''must_have_skills'' = Inr []"
  "requirement_set empty_job ''requirements'' ''nice_to_have_skills'' = Inr []"
  "requirement_set empty_job ''keywords'' ''ats_keywords'' = Inr []"
  by code_simp+

theorem empty_requirement_defaults_witness:
  "calculate_match_score id example_profile empty_job \<noteq> Inl ZeroDivisionError
   \<and> (\<exists>s r. calculate_scores id example_profile empty_job = Inr s
            \<and> calculate_match_score id example_profile empty_job = Inr r
            \<and> required_score s = PInt 100 \<and> required_skills_score r = PInt 100
            \<and> nice_score s = PInt 0 \<and> nice_to_have_score r = PInt 0
            \<and> kw_score s = PInt 0 \<and> keyword_score r = PInt 0)"
  using empty_requirement_defaults [of id example_profile empty_job]
    example_scores_empty_job example_result_empty_job empty_job_sets
  by blast

text \<open>
  C1, as amended. When the three requirement lists of the job are all empty,
  \<open>calculate_match_score\<close> returns, for every profile whose skills and keywords can be
  extracted, an overall score of 100 and a list of recommendations that holds the
  strong-match message and nothing else.
\<close>

theorem all_requirements_empty:
  assumes "requirement_set job ''requirements'' ''must_have_skills'' = Inr []"
    and "requirement_set job ''requirements'' ''nice_to_have_skills'' = Inr []"
    and "requirement_set job ''keywords'' ''ats_keywords'' = Inr []"
    and "extract_candidate_skills profile = Inr cand_skills"
    and "extract_keywords_from_profile profile = Inr cand_keywords"
  shows "\<exists>r. calculate_match_score fl profile job = Inr r
             \<and> overall_score r = PInt 100 \<and> num_val (overall_score r) = 100
             \<and> recommendations r = [StrongMatch]"
  using assms
  by (simp add: calculate_match_score_def calculate_scores_def and_then_def
      weighted_score_returns match_result_of_def py_min_def set_difference_def
      generate_recommendations_def)

theorem all_requirements_empty_witness:
  "\<exists>r. calculate_match_score id example_profile empty_job = Inr r
       \<and> overall_score r = PInt 100 \<and> num_val (overall_score r) = 100
       \<and> recommendations r = [StrongMatch]"
proof -
  have "extract_candidate_skills example_profile = Inr [''python'']"
    by code_simp
  moreover have "extract_keywords_from_profile example_profile = Inr [''engineer'']"
    by code_simp
  ultimately show ?thesis
    using all_requirements_empty [of empty_job example_profile] empty_job_sets
    by blast
qed

text \<open>
  The claim C1 as it was stated fails: with the three lists empty the recommendations
  are the strong-match message alone, not the excellent-match message.
\<close>

theorem all_requirements_empty_not_excellent:
  "calculate_match_score id example_profile empty_job =
     Inr \<lparr>overall_score = PInt 100, required_skills_score = PInt 100,
          nice_to_have_score = PInt 0, keyword_score = PInt 0,
          required_skills_matched = 0, required_skills_total = 0,
          nice_to_have_matched = 0, nice_to_have_total = 0,
          keywords_matched = 0, keywords_total = 0,
          missing_required_skills = [], missing_nice_to_have_skills = [],
          recommendations = [StrongMatch]\<rparr>
   \<and> [StrongMatch] \<noteq> [ExcellentMatch]"
  by (simp add: example_result_empty_job)

lemma round_half_even_nonneg: "0 \<le> x \<Longrightarrow> 0 \<le> round_half_even x"
proof -
  assume "0 \<le> x"
  then have "0 \<le> \<lfloor>x\<rfloor>" by simp
  then show ?thesis
    by (simp add: round_half_even_def Let_def)
qed

lemma round_half_even_le:
  assumes "x \<le> of_int n"
  shows "round_half_even x \<le> n"
proof -
  from assms have f: "\<lfloor>x\<rfloor> \<le> n"
    by (simp add: floor_le_iff)
  show ?thesis
  proof (cases "x = of_int \<lfloor>x\<rfloor>")
    case True
    then have "x - of_int \<lfloor>x\<rfloor> < 1 / 2" by simp
    with f show ?thesis
      by (simp add: round_half_even_def Let_def)
  next
    case False
    then have "of_int \<lfloor>x\<rfloor> \<noteq> x"
      by (rule not_sym)
    then have "of_int \<lfloor>x\<rfloor> < x"
      using of_int_floor_le [of x] by (rule order.not_eq_order_implies_strict)
    with assms have "(of_int \<lfloor>x\<rfloor> :: rat) < of_int n"
      by linarith
    then have "\<lfloor>x\<rfloor> + 1 \<le> n" by simp
    with f show ?thesis
      by (simp add: round_half_even_def Let_def)
  qed
qed

lemma py_round1_bounds:
  assumes "\<forall>x. 0 \<le> x \<longrightarrow> 0 \<le> fl x" and "\<forall>x. x \<le> 100 \<longrightarrow> fl x \<le> 100"
    and "0 \<le> num_val v" and "num_val v \<le> 100"
  shows "0 \<le> num_val (py_round1 fl v) \<and> num_val (py_round1 fl v) \<le> 100"
proof (cases v)
  case (PInt n)
  with assms(3,4) show ?thesis by simp
next
  case (PFloat x)
  with assms(3,4) have x: "0 \<le> x" "x \<le> 100" by simp_all
  from x(1) have "0 \<le> round_half_even (x * 10)"
    by (intro round_half_even_nonneg) simp
  then have lo: "(0::rat) \<le> of_int (round_half_even (x * 10)) / 10"
    by simp
  from x(2) have "x * 10 \<le> of_int 1000" by simp
  then have "round_half_even (x * 10) \<le> 1000"
    by (rule round_half_even_le)
  then have "(of_int (round_half_even (x * 10)) :: rat) \<le> of_int 1000"
    by (simp only: of_int_le_iff)
  then have hi: "(of_int (round_half_even (x * 10)) :: rat) / 10 \<le> 100"
    by simp
  from lo hi assms(1,2) PFloat show ?thesis by simp
qed

lemma py_mul_nonneg:
  assumes "\<forall>x. 0 \<le> x \<longrightarrow> 0 \<le> fl x" and "0 \<le> num_val a" and "0 \<le> num_val b"
  shows "0 \<le> num_val (py_mul fl a b)"
  using assms by (cases "(fl, a, b)" rule: py_mul.cases) simp_all

lemma py_add_nonneg:
  assumes "\<forall>x. 0 \<le> x \<longrightarrow> 0 \<le> fl x" and "0 \<le> num_val a" and "0 \<le> num_val b"
  shows "0 \<le> num_val (py_add fl a b)"
  using assms by (cases "(fl, a, b)" rule: py_add.cases) simp_all

lemma weighted_score_nonneg:
  assumes "\<forall>x. 0 \<le> x \<longrightarrow> 0 \<le> fl x"
    and "weighted_score fl matches required weight dflt = Inr v"
    and "0 \<le> weight" and "0 \<le> dflt"
  shows "0 \<le> num_val v"
proof (cases "required = []")
  case True
  with assms(2,4) show ?thesis
    by (auto simp: weighted_score_returns)
next
  case False
  have "(0::rat) \<le> of_int (int matches) / of_int (int (length required))"
    by simp
  with assms(1) have "0 \<le> fl (of_int (int matches) / of_int (int (length required)))"
    by blast
  then have "0 \<le> num_val (py_mul fl
      (PFloat (fl (of_int (int matches) / of_int (int (length required))))) (PInt weight))"
    using assms(1,3) by (intro py_mul_nonneg) simp_all
  with False assms(2) show ?thesis
    by (auto simp: weighted_score_returns)
qed

lemma py_min_100_bounds:
  "0 \<le> num_val v \<Longrightarrow>
   0 \<le> num_val (py_min (PInt 100) v) \<and> num_val (py_min (PInt 100) v) \<le> 100"
  by (simp add: py_min_def)

text \<open>
  C7. For every profile and job analysis for which \<open>calculate_match_score\<close> returns,
  the overall score is the minimum of 100 and the sum of the required, nice-to-have and
  keyword scores, rounded to one decimal, and it lies between 0 and 100. The bounds
  rest on two facts of the float arithmetic: the rounding \<open>fl\<close> of a number that is not
  negative is not negative, and the rounding of a number up to 100 is at most 100
  (rounding to the nearest double is monotone and keeps 0 and 100).
\<close>

theorem overall_score_bounds:
  assumes "\<forall>x. 0 \<le> x \<longrightarrow> 0 \<le> fl x" and "\<forall>x. x \<le> 100 \<longrightarrow> fl x \<le> 100"
    and "calculate_match_score fl profile job = Inr r"
  shows "\<exists>s. calculate_scores fl profile job = Inr s
             \<and> overall_score r
                 = py_round1 fl (py_min (PInt 100)
                     (py_add fl (py_add fl (required_score s) (nice_score s)) (kw_score s)))
             \<and> 0 \<le> num_val (overall_score r) \<and> num_val (overall_score r) \<le> 100"
proof -
  from assms(3) obtain s where s: "calculate_scores fl profile job = Inr s"
    and r: "r = match_result_of fl s"
    by (cases "calculate_scores fl profile job")
       (auto simp: calculate_match_score_def and_then_def)
  note f = calculate_scores_fields [OF s]
  have "0 \<le> num_val (required_score s)"
    using assms(1) f(6) by (rule weighted_score_nonneg) simp_all
  moreover have "0 \<le> num_val (nice_score s)"
    using assms(1) f(7) by (rule weighted_score_nonneg) simp_all
  moreover have "0 \<le> num_val (kw_score s)"
    using assms(1) f(8) by (rule weighted_score_nonneg) simp_all
  ultimately have
    "0 \<le> num_val (py_add fl (py_add fl (required_score s) (nice_score s)) (kw_score s))"
    using assms(1) by (intro py_add_nonneg) simp_all
  then have "0 \<le> num_val (overall s) \<and> num_val (overall s) \<le> 100"
    unfolding f(12) by (rule py_min_100_bounds)
  with assms(1,2) have "0 \<le> num_val (py_round1 fl (overall s))
                        \<and> num_val (py_round1 fl (overall s)) \<le> 100"
    by (intro py_round1_bounds) simp_all
  moreover have "overall_score r = py_round1 fl (overall s)"
    by (simp add: r match_result_of_def)
  ultimately show ?thesis
    using s f(12) by auto
qed

lemma fl_coarse_nonneg: "\<forall>x. 0 \<le> x \<longrightarrow> 0 \<le> fl_coarse x"
proof (intro allI impI)
  fix x :: rat assume "0 \<le> x"
  then have "0 \<le> round_half_even (x * 1024)"
    by (intro round_half_even_nonneg) simp
  then show "0 \<le> fl_coarse x"
    by (simp add: fl_coarse_def)
qed

lemma fl_coarse_le_100: "\<forall>x. x \<le> 100 \<longrightarrow> fl_coarse x \<le> 100"
proof (intro allI impI)
  fix x :: rat assume "x \<le> 100"
  then have "x * 1024 \<le> of_int 102400" by simp
  then have "round_half_even (x * 1024) \<le> 102400"
    by (rule round_half_even_le)
  then have "(of_int (round_half_even (x * 1024)) :: rat) \<le> of_int 102400"
    by (simp only: of_int_le_iff)
  then show "fl_coarse x \<le> 100"
    by (simp add: fl_coarse_def)
qed

lemma example_result_example_job:
  "calculate_match_score fl_coarse example_profile example_job =
     Inr \<lparr>overall_score = PFloat (64819 / 1024),
          required_skills_score = PFloat (34099 / 1024),
          nice_to_have_score = PFloat 0, keyword_score = PFloat 30,
          required_skills_matched = 1, required_skills_total = 3,
          nice_to_have_matched = 0, nice_to_have_total = 1,
          keywords_matched = 1, keywords_total = 1,
          missing_required_skills = [''go'', ''rust''],
          missing_nice_to_have_skills = [''docker''],
          recommendations = [AddRequired ''go, rust'', HighlightNiceToHave ''docker'']\<rparr>"
  by code_simp

theorem overall_score_bounds_witness:
  "\<exists>s. calculate_scores fl_coarse example_profile example_job = Inr s
       \<and> PFloat (64819 / 1024)
           = py_round1 fl_coarse (py_min (PInt 100)
               (py_add fl_coarse (py_add fl_coarse (required_score s) (nice_score s))
                  (kw_score s)))
       \<and> (0::rat) \<le> 64819 / 1024 \<and> (64819 / 1024 :: rat) \<le> 100"
  using overall_score_bounds [OF fl_coarse_nonneg fl_coarse_le_100 example_result_example_job]
  by simp

end
